theory Spec2Isabelle
  imports Complex_Main "HOL-Library.Word" "HOL-Library.Log_Nat" "HOL-Library.Monad_Syntax"
begin

section \<open>Finance templates: income statement generator and variance analysis\<close>

text \<open>
  The two finance templates are straight-line Python scripts over a pandas table. Each
  script is embedded as a function of its input table \<open>df\<close> (the sample table of the
  script is one value of it). A table is the list of its rows; a column assignment maps
  over the rows; \<open>print\<close> appends one line to the standard output, which is passed
  along as a list of lines.

  Integer columns built from Python integers are \<open>int64\<close> columns: their arithmetic
  (\<open>Series.sum\<close>, \<open>+\<close>, \<open>-\<close>) wraps around at 64 bits, so they are \<open>64 word\<close>
  here, read as signed numbers by \<open>sint\<close>. The quotient of two such columns is a
  \<open>float64\<close> column, modelled below with its infinities, its not-a-number and its
  rounding to 53 significant bits. Tables whose amount columns hold missing values or
  numbers that are not integers are outside this model.
\<close>

subsection \<open>Python strings\<close>

definition ljust :: "nat \<Rightarrow> string \<Rightarrow> string" where
  "ljust width s = s @ replicate (width - length s) CHR '' ''"

definition rjust :: "nat \<Rightarrow> string \<Rightarrow> string" where
  "rjust width s = replicate (width - length s) CHR '' '' @ s"

definition digit :: "nat \<Rightarrow> char" where
  "digit d = ''0123456789'' ! d"

fun str_nat :: "nat \<Rightarrow> string" where
  "str_nat n = (if n < 10 then [digit n] else str_nat (n div 10) @ [digit (n mod 10)])"

declare str_nat.simps [simp del]

text \<open>The thousands separator of the \<open>,\<close> format option, on a string of digits.\<close>

fun group3 :: "string \<Rightarrow> string" where
  "group3 ds =
     (if length ds \<le> 3 then ds
      else group3 (take (length ds - 3) ds) @ CHR '','' # drop (length ds - 3) ds)"

declare group3.simps [simp del]

definition zfill :: "nat \<Rightarrow> string \<Rightarrow> string" where
  "zfill width s = replicate (width - length s) CHR ''0'' @ s"

definition print :: "string \<Rightarrow> string list \<Rightarrow> string list" where
  "print line out = out @ [line]"

subsection \<open>float64\<close>

text \<open>
  A \<open>float64\<close> value is a sign bit with a magnitude (a rational that has at most 53
  significant bits and an exponent in range), an infinity with its sign, or not-a-number.
  \<open>Finite True 0\<close> is the negative zero.
\<close>

datatype float64 = Finite bool rat | Infinity bool | NaN

definition pow2 :: "int \<Rightarrow> rat" where
  "pow2 k = (if 0 \<le> k then 2 ^ nat k else 1 / 2 ^ nat (- k))"

text \<open>\<open>ilog2 q\<close> is the exponent \<open>k\<close> with \<open>2\<^sup>k \<le> q < 2\<^sup>k\<^sup>+\<^sup>1\<close>, for \<open>q > 0\<close>.\<close>

definition ilog2 :: "rat \<Rightarrow> int" where
  "ilog2 q = (case quotient_of q of (a, b) \<Rightarrow>
     (let k = bitlen a - bitlen b in if pow2 k \<le> q then k else k - 1))"

definition round_half_even :: "rat \<Rightarrow> int" where
  "round_half_even x =
     (let f = \<lfloor>x\<rfloor>; d = x - of_int f
      in if d < 1 / 2 then f else if 1 / 2 < d then f + 1 else if even f then f else f + 1)"

text \<open>
  Rounding of a magnitude \<open>q \<ge> 0\<close> to the nearest \<open>float64\<close>, ties to the even
  significand: the unit in the last place is \<open>2\<^sup>e\<close> with \<open>e\<close> 52 below the exponent of
  \<open>q\<close> and at least \<open>-1074\<close> (the subnormal numbers); a result of \<open>2\<^sup>1\<^sup>0\<^sup>2\<^sup>4\<close> or more is
  an infinity.
\<close>

definition fl :: "bool \<Rightarrow> rat \<Rightarrow> float64" where
  "fl s q =
     (if q = 0 then Finite s 0
      else (let e = max (ilog2 q - 52) (- 1074);
                m = round_half_even (q / pow2 e)
            in if 971 < e \<or> (e = 971 \<and> m = 2 ^ 53) then Infinity s
               else Finite s (of_int m * pow2 e)))"

text \<open>
  \<open>float(i)\<close> of a Python integer and the conversion of an \<open>int64\<close> column to
  \<open>float64\<close>. (Python raises OverflowError from \<open>2\<^sup>1\<^sup>0\<^sup>2\<^sup>4\<close> on; the scripts convert
  numbers of at most \<open>2\<^sup>6\<^sup>3\<close> only.)
\<close>

definition float_of_int :: "int \<Rightarrow> float64" where
  "float_of_int i = fl (i < 0) (of_int \<bar>i\<bar>)"

definition float_value :: "bool \<Rightarrow> rat \<Rightarrow> rat" where
  "float_value s m = (if s then - m else m)"

fun float_div :: "float64 \<Rightarrow> float64 \<Rightarrow> float64" where
  "float_div NaN y = NaN"
| "float_div x NaN = NaN"
| "float_div (Infinity s) (Infinity t) = NaN"
| "float_div (Infinity s) (Finite t n) = Infinity (s \<noteq> t)"
| "float_div (Finite s m) (Infinity t) = Finite (s \<noteq> t) 0"
| "float_div (Finite s m) (Finite t n) =
     (if n = 0 then (if m = 0 then NaN else Infinity (s \<noteq> t)) else fl (s \<noteq> t) (m / n))"

fun float_mul :: "float64 \<Rightarrow> float64 \<Rightarrow> float64" where
  "float_mul NaN y = NaN"
| "float_mul x NaN = NaN"
| "float_mul (Infinity s) (Infinity t) = Infinity (s \<noteq> t)"
| "float_mul (Infinity s) (Finite t n) = (if n = 0 then NaN else Infinity (s \<noteq> t))"
| "float_mul (Finite s m) (Infinity t) = (if m = 0 then NaN else Infinity (s \<noteq> t))"
| "float_mul (Finite s m) (Finite t n) = fl (s \<noteq> t) (m * n)"

fun float_less :: "float64 \<Rightarrow> float64 \<Rightarrow> bool" where
  "float_less NaN y = False"
| "float_less x NaN = False"
| "float_less (Infinity s) (Infinity t) = (s \<and> \<not> t)"
| "float_less (Infinity s) (Finite t n) = s"
| "float_less (Finite s m) (Infinity t) = (\<not> t)"
| "float_less (Finite s m) (Finite t n) = (float_value s m < float_value t n)"

text \<open>
  The fixed-point format \<open>f\<close> with \<open>prec\<close> decimals, and with the \<open>,\<close> option when
  \<open>grouping\<close>: the exact value is rounded to \<open>prec\<close> decimals, ties to even; the sign
  bit is printed also when the digits are all zero.
\<close>

definition format_f :: "bool \<Rightarrow> nat \<Rightarrow> float64 \<Rightarrow> string" where
  "format_f grouping prec x =
     (case x of
        NaN \<Rightarrow> ''nan''
      | Infinity s \<Rightarrow> (if s then ''-inf'' else ''inf'')
      | Finite s m \<Rightarrow>
          (let scaled = nat (round_half_even (m * 10 ^ prec));
               ip = str_nat (scaled div 10 ^ prec);
               fp = zfill prec (str_nat (scaled mod 10 ^ prec))
           in (if s then ''-'' else [])
              @ (if grouping then group3 ip else ip)
              @ (if prec = 0 then [] else ''.'' @ fp)))"

subsection \<open>income\_statement\_generator.py\<close>

type_synonym int64 = "64 word"

record transaction =
  Account :: string
  Sub_Account :: string
  Amount :: int64
  Period :: string

record statement_line =
  Line_Item :: string
  Line_Amount :: int64
  Line_Type :: string

text \<open>The sample table of the script.\<close>

definition sample_data :: "transaction list" where
  "sample_data =
     [\<lparr>Account = ''Revenue'', Sub_Account = ''Product Sales'', Amount = 500000, Period = ''2023-Q1''\<rparr>,
      \<lparr>Account = ''Revenue'', Sub_Account = ''Service Revenue'', Amount = 120000, Period = ''2023-Q1''\<rparr>,
      \<lparr>Account = ''COGS'', Sub_Account = ''Material Cost'', Amount = - 200000, Period = ''2023-Q1''\<rparr>,
      \<lparr>Account = ''COGS'', Sub_Account = ''Labor Cost'', Amount = - 80000, Period = ''2023-Q1''\<rparr>,
      \<lparr>Account = ''OpEx'', Sub_Account = ''Marketing'', Amount = - 45000, Period = ''2023-Q1''\<rparr>,
      \<lparr>Account = ''OpEx'', Sub_Account = ''R&D'', Amount = - 60000, Period = ''2023-Q1''\<rparr>,
      \<lparr>Account = ''OpEx'', Sub_Account = ''G&A'', Amount = - 30000, Period = ''2023-Q1''\<rparr>,
      \<lparr>Account = ''Tax'', Sub_Account = ''Income Tax'', Amount = - 40000, Period = ''2023-Q1''\<rparr>]"

text \<open>The dictionary \<open>structure\<close>; a lookup of a missing key (KeyError) is \<open>None\<close>.\<close>

definition "structure" :: "string \<rightharpoonup> string list" where
  "structure =
     map_of
       [(''Revenue'', [''Product Sales'', ''Service Revenue'']),
        (''Cost of Goods Sold'', [''Material Cost'', ''Labor Cost'']),
        (''Gross Profit'', []),
        (''Operating Expenses'', [''Marketing'', ''R&D'', ''G&A'']),
        (''Operating Income'', []),
        (''Taxes'', [''Income Tax'']),
        (''Net Income'', [])]"

text \<open>\<open>df[df['Sub-Account'].isin(sub_accounts)]['Amount'].sum()\<close>\<close>

definition get_total :: "transaction list \<Rightarrow> string list \<Rightarrow> int64" where
  "get_total df sub_accounts =
     sum_list (map Amount (filter (\<lambda>row. Sub_Account row \<in> set sub_accounts) df))"

definition revenue :: "transaction list \<Rightarrow> int64 option" where
  "revenue df = do { subs \<leftarrow> structure ''Revenue''; Some (get_total df subs) }"

definition cogs :: "transaction list \<Rightarrow> int64 option" where
  "cogs df = do { subs \<leftarrow> structure ''Cost of Goods Sold''; Some (get_total df subs) }"

definition gross_profit :: "transaction list \<Rightarrow> int64 option" where
  "gross_profit df = do { r \<leftarrow> revenue df; c \<leftarrow> cogs df; Some (r + c) }"

definition opex :: "transaction list \<Rightarrow> int64 option" where
  "opex df = do { subs \<leftarrow> structure ''Operating Expenses''; Some (get_total df subs) }"

definition operating_income :: "transaction list \<Rightarrow> int64 option" where
  "operating_income df = do { g \<leftarrow> gross_profit df; x \<leftarrow> opex df; Some (g + x) }"

definition taxes :: "transaction list \<Rightarrow> int64 option" where
  "taxes df = do { subs \<leftarrow> structure ''Taxes''; Some (get_total df subs) }"

definition net_income :: "transaction list \<Rightarrow> int64 option" where
  "net_income df = do { i \<leftarrow> operating_income df; t \<leftarrow> taxes df; Some (i + t) }"

definition statement_data :: "transaction list \<Rightarrow> statement_line list option" where
  "statement_data df = do {
     revenue' \<leftarrow> revenue df;
     cogs' \<leftarrow> cogs df;
     gross_profit' \<leftarrow> gross_profit df;
     opex' \<leftarrow> opex df;
     operating_income' \<leftarrow> operating_income df;
     net_income' \<leftarrow> net_income df;
     Some
       [\<lparr>Line_Item = ''Revenue'', Line_Amount = revenue', Line_Type = ''Header''\<rparr>,
        \<lparr>Line_Item = ''  Product Sales'', Line_Amount = get_total df [''Product Sales''],
          Line_Type = ''Detail''\<rparr>,
        \<lparr>Line_Item = ''  Service Revenue'', Line_Amount = get_total df [''Service Revenue''],
          Line_Type = ''Detail''\<rparr>,
        \<lparr>Line_Item = ''Cost of Goods Sold'', Line_Amount = cogs', Line_Type = ''Header''\<rparr>,
        \<lparr>Line_Item = ''Gross Profit'', Line_Amount = gross_profit', Line_Type = ''Total''\<rparr>,
        \<lparr>Line_Item = ''Operating Expenses'', Line_Amount = opex', Line_Type = ''Header''\<rparr>,
        \<lparr>Line_Item = ''Operating Income'', Line_Amount = operating_income',
          Line_Type = ''Total''\<rparr>,
        \<lparr>Line_Item = ''Net Income'', Line_Amount = net_income', Line_Type = ''Grand Total''\<rparr>]
   }"

text \<open>
  The Detail lines that a statement lists under the line labelled \<open>header\<close>: the
  run of Detail lines right after it. (Not a function of the script; the properties of
  the statement are stated with it.)
\<close>

definition details_under :: "string \<Rightarrow> statement_line list \<Rightarrow> statement_line list" where
  "details_under header lines =
     takeWhile (\<lambda>line. Line_Type line = ''Detail'')
       (drop 1 (dropWhile (\<lambda>line. Line_Item line \<noteq> header) lines))"

text \<open>
  \<open>f"${abs(row['Amount']):,.2f}"\<close>: the row's amount is a Python integer there, so
  \<open>abs\<close> does not wrap, and the format converts it to a float first.
\<close>

definition money :: "int64 \<Rightarrow> string" where
  "money amount = ''$'' @ format_f True 2 (float_of_int \<bar>sint amount\<bar>)"

definition amount_str :: "statement_line \<Rightarrow> string" where
  "amount_str row =
     (if sint (Line_Amount row) < 0 \<and> Line_Type row \<noteq> ''Total''
      then ''('' @ money (Line_Amount row) @ '')''
      else money (Line_Amount row))"

definition row_text :: "statement_line \<Rightarrow> string" where
  "row_text row = ljust 25 (Line_Item row) @ '' '' @ rjust 15 (amount_str row)"

text \<open>The body of the loop over \<open>statement_df.iterrows()\<close>.\<close>

definition print_row :: "statement_line \<Rightarrow> string list \<Rightarrow> string list" where
  "print_row row out =
     (if Line_Type row = ''Grand Total''
      then print (replicate 40 CHR ''='') (print (row_text row) out)
      else if Line_Type row = ''Total''
      then print (replicate 40 CHR ''-'') (print (row_text row) out)
      else print (row_text row) out)"

fun format_loop :: "statement_line list \<Rightarrow> string list \<Rightarrow> string list" where
  "format_loop [] out = out"
| "format_loop (row # rows) out = format_loop rows (print_row row out)"

text \<open>The whole script, from the table and the output so far to the output after it.\<close>

definition income_statement_generator ::
    "transaction list \<Rightarrow> string list \<Rightarrow> string list option" where
  "income_statement_generator df out = do {
     statement_df \<leftarrow> statement_data df;
     Some (format_loop statement_df
             (print (replicate 40 CHR ''-'') (print ''Income Statement (2023-Q1)'' out)))
   }"

subsection \<open>variance\_analysis\_template.py\<close>

record budget_row =
  Department :: string
  Actual :: int64
  Budget :: int64

text \<open>The table after each of the three column assignments.\<close>

record variance_row = budget_row +
  Variance_abs :: int64

record percent_row = variance_row +
  Variance_pct :: float64

record status_row = percent_row +
  Status :: string

definition sample_budget :: "budget_row list" where
  "sample_budget =
     [\<lparr>Department = ''Sales'', Actual = 120000, Budget = 100000\<rparr>,
      \<lparr>Department = ''Marketing'', Actual = 45000, Budget = 50000\<rparr>,
      \<lparr>Department = ''Engineering'', Actual = 150000, Budget = 140000\<rparr>,
      \<lparr>Department = ''HR'', Actual = 20000, Budget = 20000\<rparr>,
      \<lparr>Department = ''Finance'', Actual = 25000, Budget = 22000\<rparr>]"

text \<open>\<open>df['Variance ($)'] = df['Actual'] - df['Budget']\<close>, on \<open>int64\<close> columns.\<close>

definition assign_variance_abs :: "budget_row list \<Rightarrow> variance_row list" where
  "assign_variance_abs df =
     map (\<lambda>row. \<lparr>Department = Department row, Actual = Actual row, Budget = Budget row,
                  Variance_abs = Actual row - Budget row\<rparr>) df"

text \<open>
  \<open>df['Variance (%)'] = (df['Variance ($)'] / df['Budget']) * 100\<close>: the true division
  of two \<open>int64\<close> columns converts both to \<open>float64\<close> and divides there, a zero
  divisor giving an infinity or not-a-number; the product with \<open>100\<close> is a
  \<open>float64\<close> product.
\<close>

definition percent :: "int64 \<Rightarrow> int64 \<Rightarrow> float64" where
  "percent variance budget =
     float_mul (float_div (float_of_int (sint variance)) (float_of_int (sint budget)))
       (float_of_int 100)"

definition assign_variance_pct :: "variance_row list \<Rightarrow> percent_row list" where
  "assign_variance_pct df =
     map (\<lambda>row. \<lparr>Department = Department row, Actual = Actual row, Budget = Budget row,
                  Variance_abs = Variance_abs row,
                  Variance_pct = percent (Variance_abs row) (Budget row)\<rparr>) df"

text \<open>\<open>lambda x: 'Red' if x > 10 else ('Green' if x < -10 else 'Yellow')\<close>\<close>

definition status_of :: "float64 \<Rightarrow> string" where
  "status_of x =
     (if float_less (float_of_int 10) x then ''Red''
      else if float_less x (float_of_int (- 10)) then ''Green''
      else ''Yellow'')"

definition assign_status :: "percent_row list \<Rightarrow> status_row list" where
  "assign_status df =
     map (\<lambda>row. \<lparr>Department = Department row, Actual = Actual row, Budget = Budget row,
                  Variance_abs = Variance_abs row, Variance_pct = Variance_pct row,
                  Status = status_of (Variance_pct row)\<rparr>) df"

definition variance_table :: "budget_row list \<Rightarrow> status_row list" where
  "variance_table df = assign_status (assign_variance_pct (assign_variance_abs df))"

text \<open>
  The line printed for one row. The first two string literals of the source are adjacent,
  so they are one string, and the first \<open>rjust(10)\<close> pads department and actual
  together.
\<close>

definition dollars :: "int64 \<Rightarrow> string" where
  "dollars amount = ''$'' @ format_f True 0 (float_of_int (sint amount))"

definition report_row :: "status_row \<Rightarrow> string" where
  "report_row row =
     rjust 10 (ljust 15 (Department row) @ '' '' @ dollars (Actual row)) @ '' '' @
     rjust 10 (dollars (Budget row)) @ '' '' @
     rjust 10 (dollars (Variance_abs row)) @ '' '' @
     rjust 10 (format_f False 1 (Variance_pct row) @ ''%'') @ '' '' @
     rjust 8 (Status row)"

fun report_loop :: "status_row list \<Rightarrow> string list \<Rightarrow> string list" where
  "report_loop [] out = out"
| "report_loop (row # rows) out = report_loop rows (print (report_row row) out)"

definition report_header :: string where
  "report_header =
     ljust 15 ''Department'' @ '' '' @ rjust 10 ''Actual'' @ '' '' @ rjust 10 ''Budget'' @ '' '' @
     rjust 10 ''Var ($)'' @ '' '' @ rjust 10 ''Var (%)'' @ '' '' @ rjust 8 ''Status''"

definition variance_analysis_template :: "budget_row list \<Rightarrow> string list \<Rightarrow> string list" where
  "variance_analysis_template df out =
     report_loop (variance_table df)
       (print (replicate 60 CHR ''-'')
          (print report_header
             (print (replicate 60 CHR ''='')
                (print ''Variance Analysis Report'' out))))"

section \<open>Lemmas\<close>

subsection \<open>The totals of the statement\<close>

lemma structure_simps:
  "structure ''Revenue'' = Some [''Product Sales'', ''Service Revenue'']"
  "structure ''Cost of Goods Sold'' = Some [''Material Cost'', ''Labor Cost'']"
  "structure ''Operating Expenses'' = Some [''Marketing'', ''R&D'', ''G&A'']"
  "structure ''Taxes'' = Some [''Income Tax'']"
  by (simp_all add: structure_def)

lemma revenue_eq: "revenue df = Some (get_total df [''Product Sales'', ''Service Revenue''])"
  by (simp add: revenue_def structure_simps)

lemma cogs_eq: "cogs df = Some (get_total df [''Material Cost'', ''Labor Cost''])"
  by (simp add: cogs_def structure_simps)

lemma opex_eq: "opex df = Some (get_total df [''Marketing'', ''R&D'', ''G&A''])"
  by (simp add: opex_def structure_simps)

lemma taxes_eq: "taxes df = Some (get_total df [''Income Tax''])"
  by (simp add: taxes_def structure_simps)

lemma gross_profit_eq:
  "gross_profit df =
     Some (get_total df [''Product Sales'', ''Service Revenue'']
           + get_total df [''Material Cost'', ''Labor Cost''])"
  by (simp add: gross_profit_def revenue_eq cogs_eq)

lemma operating_income_eq:
  "operating_income df =
     Some (get_total df [''Product Sales'', ''Service Revenue'']
           + get_total df [''Material Cost'', ''Labor Cost'']
           + get_total df [''Marketing'', ''R&D'', ''G&A''])"
  by (simp add: operating_income_def gross_profit_eq opex_eq)

lemma net_income_eq:
  "net_income df =
     Some (get_total df [''Product Sales'', ''Service Revenue'']
           + get_total df [''Material Cost'', ''Labor Cost'']
           + get_total df [''Marketing'', ''R&D'', ''G&A'']
           + get_total df [''Income Tax''])"
  by (simp add: net_income_def operating_income_eq taxes_eq)

lemma statement_data_eq:
  "statement_data df =
     Some
       [\<lparr>Line_Item = ''Revenue'',
          Line_Amount = get_total df [''Product Sales'', ''Service Revenue''],
          Line_Type = ''Header''\<rparr>,
        \<lparr>Line_Item = ''  Product Sales'', Line_Amount = get_total df [''Product Sales''],
          Line_Type = ''Detail''\<rparr>,
        \<lparr>Line_Item = ''  Service Revenue'', Line_Amount = get_total df [''Service Revenue''],
          Line_Type = ''Detail''\<rparr>,
        \<lparr>Line_Item = ''Cost of Goods Sold'',
          Line_Amount = get_total df [''Material Cost'', ''Labor Cost''],
          Line_Type = ''Header''\<rparr>,
        \<lparr>Line_Item = ''Gross Profit'',
          Line_Amount = get_total df [''Product Sales'', ''Service Revenue'']
                        + get_total df [''Material Cost'', ''Labor Cost''],
          Line_Type = ''Total''\<rparr>,
        \<lparr>Line_Item = ''Operating Expenses'',
          Line_Amount = get_total df [''Marketing'', ''R&D'', ''G&A''],
          Line_Type = ''Header''\<rparr>,
        \<lparr>Line_Item = ''Operating Income'',
          Line_Amount = get_total df [''Product Sales'', ''Service Revenue'']
                        + get_total df [''Material Cost'', ''Labor Cost'']
                        + get_total df [''Marketing'', ''R&D'', ''G&A''],
          Line_Type = ''Total''\<rparr>,
        \<lparr>Line_Item = ''Net Income'',
          Line_Amount = get_total df [''Product Sales'', ''Service Revenue'']
                        + get_total df [''Material Cost'', ''Labor Cost'']
                        + get_total df [''Marketing'', ''R&D'', ''G&A'']
                        + get_total df [''Income Tax''],
          Line_Type = ''Grand Total''\<rparr>]"
  by (simp add: statement_data_def revenue_eq cogs_eq gross_profit_eq opex_eq
      operating_income_eq net_income_eq)

lemma statement_line_order:
  "map_option (map (\<lambda>line. (Line_Item line, Line_Type line))) (statement_data df)
     = Some [(''Revenue'', ''Header''), (''  Product Sales'', ''Detail''),
             (''  Service Revenue'', ''Detail''), (''Cost of Goods Sold'', ''Header''),
             (''Gross Profit'', ''Total''), (''Operating Expenses'', ''Header''),
             (''Operating Income'', ''Total''), (''Net Income'', ''Grand Total'')]"
  by (simp add: statement_data_eq)

lemma get_total_sum:
  "get_total df subs = (\<Sum>row\<leftarrow>df. if Sub_Account row \<in> set subs then Amount row else 0)"
  by (simp add: get_total_def sum_list_map_filter')

lemma get_total_Nil: "get_total df [] = 0"
  by (simp add: get_total_def)

lemma get_total_no_match:
  "\<forall>row \<in> set df. Sub_Account row \<notin> set subs \<Longrightarrow> get_total df subs = 0"
  by (induction df) (simp_all add: get_total_def)

lemma get_total_Cons:
  "get_total (row # df) subs =
     (if Sub_Account row \<in> set subs then Amount row + get_total df subs else get_total df subs)"
  by (simp add: get_total_def)

lemma sint_sum_list:
  "sint (sum_list ws :: int64) = signed_take_bit 63 (sum_list (map sint ws))"
proof -
  have "(sum_list ws :: int64) = word_of_int (sum_list (map sint ws))"
    by (induction ws) simp_all
  then show ?thesis
    by (simp add: sint_sbintrunc')
qed

lemma get_total_exact:
  assumes "- (2 ^ 63) \<le> (\<Sum>row\<leftarrow>filter (\<lambda>row. Sub_Account row \<in> set subs) df. sint (Amount row))"
    and "(\<Sum>row\<leftarrow>filter (\<lambda>row. Sub_Account row \<in> set subs) df. sint (Amount row)) < 2 ^ 63"
  shows "sint (get_total df subs)
         = (\<Sum>row\<leftarrow>filter (\<lambda>row. Sub_Account row \<in> set subs) df. sint (Amount row))"
  using assms
  by (simp add: get_total_def sint_sum_list o_def signed_take_bit_int_eq_self)

lemma get_total_split:
  "set xs \<inter> set ys = {} \<Longrightarrow> get_total df (xs @ ys) = get_total df xs + get_total df ys"
  by (induction df) (auto simp: get_total_Cons get_total_def)

lemma sample_totals:
  "get_total sample_data [''Product Sales'', ''Service Revenue''] = 620000"
  "get_total sample_data [''Material Cost'', ''Labor Cost''] = - 280000"
  "get_total sample_data [''Marketing'', ''R&D'', ''G&A''] = - 135000"
  "get_total sample_data [''Income Tax''] = - 40000"
  by (simp_all add: get_total_def sample_data_def)

lemma get_total_cong:
  "map Sub_Account df = map Sub_Account df' \<Longrightarrow> map Amount df = map Amount df' \<Longrightarrow>
   get_total df subs = get_total df' subs"
proof (induction df arbitrary: df')
  case Nil
  then show ?case by (simp add: get_total_def)
next
  case (Cons row df)
  then obtain row' rest where df': "df' = row' # rest" by (cases df') auto
  with Cons.prems have "Sub_Account row = Sub_Account row'" "Amount row = Amount row'"
    "map Sub_Account df = map Sub_Account rest" "map Amount df = map Amount rest"
    by simp_all
  then show ?case using Cons.IH [of rest] by (simp add: df' get_total_def)
qed

lemma get_total_pair:
  "a \<noteq> b \<Longrightarrow> get_total df [a] + get_total df [b] = get_total df [a, b]"
  using get_total_split [of "[a]" "[b]" df] by simp

lemma get_total_single:
  "get_total df [a] = sum_list (map Amount (filter (\<lambda>row. Sub_Account row = a) df))"
  by (simp add: get_total_def)

lemma details_under_statement:
  assumes "statement_data df = Some lines"
  shows "details_under ''Revenue'' lines
           = [\<lparr>Line_Item = ''  Product Sales'', Line_Amount = get_total df [''Product Sales''],
                Line_Type = ''Detail''\<rparr>,
              \<lparr>Line_Item = ''  Service Revenue'', Line_Amount = get_total df [''Service Revenue''],
                Line_Type = ''Detail''\<rparr>]"
    and "details_under ''Cost of Goods Sold'' lines = []"
    and "details_under ''Operating Expenses'' lines = []"
  using assms by (auto simp: statement_data_eq details_under_def)

subsection \<open>What the loops print\<close>

lemma row_text_length:
  "length (Line_Item row) \<le> 25 \<Longrightarrow> length (amount_str row) \<le> 15 \<Longrightarrow>
   length (row_text row) = 41"
  by (simp add: row_text_def ljust_def rjust_def)

lemma row_text_length_ge: "41 \<le> length (row_text row)"
  by (simp add: row_text_def ljust_def rjust_def)

lemma print_row_append: "print_row row out = out @ print_row row []"
  by (simp add: print_row_def print_def)

lemma format_loop_append: "format_loop lines out = out @ format_loop lines []"
proof (induction lines arbitrary: out)
  case Nil
  show ?case by simp
next
  case (Cons row rows)
  have "format_loop (row # rows) out = print_row row out @ format_loop rows []"
    using Cons [of "print_row row out"] by simp
  also have "\<dots> = out @ print_row row [] @ format_loop rows []"
    using print_row_append [of row out] by simp
  also have "print_row row [] @ format_loop rows [] = format_loop (row # rows) []"
    using Cons [of "print_row row []"] by simp
  finally show ?case .
qed

lemma format_loop_Cons: "format_loop (row # rows) [] = print_row row [] @ format_loop rows []"
  using format_loop_append [of rows "print_row row []"] by simp

lemma format_loop_concat: "format_loop lines [] = concat (map (\<lambda>row. print_row row []) lines)"
  by (induction lines) (simp_all add: format_loop_Cons del: format_loop.simps(2))

lemma income_statement_generator_eq:
  "income_statement_generator df out =
     map_option
       (\<lambda>lines. out @ [''Income Statement (2023-Q1)'', replicate 40 CHR ''-'']
                  @ concat (map (\<lambda>row. print_row row []) lines))
       (statement_data df)"
proof (cases "statement_data df")
  case None
  then show ?thesis by (simp add: income_statement_generator_def)
next
  case (Some lines)
  then show ?thesis
    using format_loop_append [of lines
        "print (replicate 40 CHR ''-'') (print ''Income Statement (2023-Q1)'' out)"]
    by (simp add: income_statement_generator_def format_loop_concat print_def)
qed

lemma report_loop_append: "report_loop rows out = out @ report_loop rows []"
proof (induction rows arbitrary: out)
  case Nil
  show ?case by simp
next
  case (Cons row rows)
  have "report_loop (row # rows) out = print (report_row row) out @ report_loop rows []"
    using Cons [of "print (report_row row) out"] by simp
  also have "\<dots> = out @ [report_row row] @ report_loop rows []"
    by (simp add: print_def)
  also have "[report_row row] @ report_loop rows [] = report_loop (row # rows) []"
    using Cons [of "print (report_row row) []"] by (simp add: print_def)
  finally show ?case .
qed

lemma report_loop_map: "report_loop rows [] = map report_row rows"
proof (induction rows)
  case Nil
  show ?case by simp
next
  case (Cons row rows)
  have "report_loop (row # rows) [] = [report_row row] @ report_loop rows []"
    using report_loop_append [of rows "[report_row row]"] by (simp add: print_def)
  then show ?case using Cons by simp
qed

subsection \<open>The table of variances\<close>

lemma variance_table_nth:
  "i < length df \<Longrightarrow>
   variance_table df ! i =
     \<lparr>Department = Department (df ! i), Actual = Actual (df ! i), Budget = Budget (df ! i),
      Variance_abs = Actual (df ! i) - Budget (df ! i),
      Variance_pct = percent (Actual (df ! i) - Budget (df ! i)) (Budget (df ! i)),
      Status = status_of (percent (Actual (df ! i) - Budget (df ! i)) (Budget (df ! i)))\<rparr>"
  by (simp add: variance_table_def assign_status_def assign_variance_pct_def
      assign_variance_abs_def)

lemma variance_table_Cons:
  "variance_table (row # df) =
     \<lparr>Department = Department row, Actual = Actual row, Budget = Budget row,
      Variance_abs = Actual row - Budget row,
      Variance_pct = percent (Actual row - Budget row) (Budget row),
      Status = status_of (percent (Actual row - Budget row) (Budget row))\<rparr>
     # variance_table df"
  by (simp add: variance_table_def assign_status_def assign_variance_pct_def
      assign_variance_abs_def)

lemma variance_table_Nil: "variance_table [] = []"
  by (simp add: variance_table_def assign_status_def assign_variance_pct_def
      assign_variance_abs_def)

lemma truncate_variance_table: "map budget_row.truncate (variance_table df) = df"
  by (induction df) (simp_all add: variance_table_Cons variance_table_Nil budget_row.truncate_def)

subsection \<open>Rounding to float64\<close>

lemma pow2_powi: "pow2 k = 2 powi k"
  by (simp add: pow2_def power_int_def power_one_over inverse_eq_divide)

lemma pow2_pos: "0 < pow2 k"
  by (simp add: pow2_powi zero_less_power_int)

lemma pow2_mono: "i \<le> j \<Longrightarrow> pow2 i \<le> pow2 j"
  by (simp add: pow2_powi power_int_increasing)

lemma pow2_less_imp: "pow2 i < pow2 j \<Longrightarrow> i < j"
  using pow2_mono [of j i] by (cases "i < j") auto

lemma ilog2_le:
  assumes "0 < q"
  shows "pow2 (ilog2 q) \<le> q"
proof -
  obtain a b where ab: "quotient_of q = (a, b)"
    by (cases "quotient_of q")
  have b: "0 < b" using ab quotient_of_denom_pos by blast
  have q: "q = of_int a / of_int b" using ab by (rule quotient_of_div)
  have a: "0 < a" using assms b q by (simp add: zero_less_divide_iff)
  define k where "k = bitlen a - bitlen b"
  show ?thesis
  proof (cases "pow2 k \<le> q")
    case True
    then show ?thesis by (simp add: ilog2_def ab k_def)
  next
    case False
    have la: "1 \<le> bitlen a" using a bitlen_eq_zero_iff [of a] bitlen_nonneg [of a] by linarith
    have lb: "0 \<le> bitlen b" by (rule bitlen_nonneg)
    have "(2::int) ^ nat (bitlen a - 1) \<le> a" using bitlen_bounds [OF a] by blast
    then have "(of_int ((2::int) ^ nat (bitlen a - 1)) :: rat) \<le> of_int a"
      by (simp only: of_int_le_iff)
    then have 1: "pow2 (bitlen a - 1) \<le> of_int a"
      using la by (simp add: pow2_def)
    have "b < (2::int) ^ nat (bitlen b)" using bitlen_bounds [OF b] by blast
    then have "(of_int b :: rat) < of_int ((2::int) ^ nat (bitlen b))"
      by (simp only: of_int_less_iff)
    then have 2: "of_int b < pow2 (bitlen b)"
      using lb by (simp add: pow2_def)
    have "pow2 (k - 1) = pow2 (bitlen a - 1) / pow2 (bitlen b)"
      by (simp add: pow2_powi k_def power_int_diff)
    also have "\<dots> \<le> of_int a / pow2 (bitlen b)"
      using 1 pow2_pos [of "bitlen b"] by (simp add: divide_right_mono)
    also have "\<dots> \<le> of_int a / of_int b"
      using 2 a b by (simp add: frac_le)
    finally have "pow2 (k - 1) \<le> q" by (simp add: q)
    with False show ?thesis by (simp add: ilog2_def ab k_def)
  qed
qed

lemma ilog2_less:
  assumes "0 < q"
  shows "q < pow2 (ilog2 q + 1)"
proof -
  obtain a b where ab: "quotient_of q = (a, b)"
    by (cases "quotient_of q")
  have b: "0 < b" using ab quotient_of_denom_pos by blast
  have q: "q = of_int a / of_int b" using ab by (rule quotient_of_div)
  have a: "0 < a" using assms b q by (simp add: zero_less_divide_iff)
  define k where "k = bitlen a - bitlen b"
  show ?thesis
  proof (cases "pow2 k \<le> q")
    case True
    have la: "0 \<le> bitlen a" by (rule bitlen_nonneg)
    have lb: "1 \<le> bitlen b" using b bitlen_eq_zero_iff [of b] bitlen_nonneg [of b] by linarith
    have "a < (2::int) ^ nat (bitlen a)" using bitlen_bounds [OF a] by blast
    then have "(of_int a :: rat) < of_int ((2::int) ^ nat (bitlen a))"
      by (simp only: of_int_less_iff)
    then have 1: "of_int a < pow2 (bitlen a)"
      using la by (simp add: pow2_def)
    have "(2::int) ^ nat (bitlen b - 1) \<le> b" using bitlen_bounds [OF b] by blast
    then have "(of_int ((2::int) ^ nat (bitlen b - 1)) :: rat) \<le> of_int b"
      by (simp only: of_int_le_iff)
    then have 2: "pow2 (bitlen b - 1) \<le> of_int b"
      using lb by (simp add: pow2_def)
    have "q < pow2 (bitlen a) / of_int b"
      using 1 b by (simp add: q divide_strict_right_mono)
    also have "\<dots> \<le> pow2 (bitlen a) / pow2 (bitlen b - 1)"
      using 2 pow2_pos [of "bitlen b - 1"] pow2_pos [of "bitlen a"]
      by (intro divide_left_mono) (simp_all add: b)
    also have "\<dots> = pow2 (k + 1)"
    proof -
      have "k + 1 = bitlen a - (bitlen b - 1)" by (simp add: k_def)
      then show ?thesis by (simp only: pow2_powi) (simp add: power_int_diff)
    qed
    finally show ?thesis using True by (simp add: ilog2_def ab k_def)
  next
    case False
    then show ?thesis by (simp add: ilog2_def ab k_def)
  qed
qed

lemma round_half_even_cases:
  "round_half_even x = \<lfloor>x\<rfloor> \<or> round_half_even x = \<lfloor>x\<rfloor> + 1"
  by (simp add: round_half_even_def Let_def)

lemma round_half_even_error: "\<bar>of_int (round_half_even x) - x\<bar> \<le> 1 / 2"
proof -
  have "of_int \<lfloor>x\<rfloor> \<le> x" and "x < of_int \<lfloor>x\<rfloor> + 1"
    by linarith+
  then show ?thesis
    by (auto simp: round_half_even_def Let_def abs_le_iff)
qed

lemma round_half_even_le_double:
  assumes "0 \<le> x"
  shows "of_int (round_half_even x) \<le> 2 * x"
proof (cases "x < 1")
  case True
  with assms have f: "\<lfloor>x\<rfloor> = 0" by (simp add: floor_eq_iff)
  show ?thesis using assms by (auto simp: round_half_even_def Let_def f)
next
  case False
  have "of_int (round_half_even x) \<le> (of_int \<lfloor>x\<rfloor> :: rat) + 1"
    using round_half_even_cases [of x] by auto
  also have "\<dots> \<le> x + 1" by simp
  also have "\<dots> \<le> 2 * x" using False by simp
  finally show ?thesis .
qed

lemma round_half_even_ge_half:
  assumes "1 \<le> x"
  shows "x / 2 \<le> of_int (round_half_even x)"
proof -
  have f1: "1 \<le> \<lfloor>x\<rfloor>" using assms by (simp add: le_floor_iff)
  have "x / 2 \<le> of_int \<lfloor>x\<rfloor>"
  proof (cases "x < 2")
    case True
    have "(1::rat) \<le> of_int \<lfloor>x\<rfloor>" using f1 by simp
    with True show ?thesis by linarith
  next
    case False
    have "x - 1 < of_int \<lfloor>x\<rfloor>" by linarith
    then show ?thesis using False by linarith
  qed
  also have "(of_int \<lfloor>x\<rfloor> :: rat) \<le> of_int (round_half_even x)"
    using round_half_even_cases [of x] by auto
  finally show ?thesis .
qed

lemma round_half_even_nonneg: "0 \<le> x \<Longrightarrow> 0 \<le> round_half_even x"
  using round_half_even_cases [of x] by (auto simp: zero_le_floor)

lemma fl_finite:
  assumes "0 \<le> q" and "q < 2 ^ 100"
  shows "\<exists>m. fl s q = Finite s m \<and> 0 \<le> m \<and> m \<le> 2 * q \<and> (1 \<le> q \<longrightarrow> q / 2 \<le> m)"
proof (cases "q = 0")
  case True
  then show ?thesis by (simp add: fl_def)
next
  case False
  with assms have pos: "0 < q" by simp
  define e where "e = max (ilog2 q - 52) (- 1074)"
  define x where "x = q / pow2 e"
  define m where "m = round_half_even x"
  have "pow2 (ilog2 q) < pow2 100"
    using ilog2_le [OF pos] assms(2) by (simp add: pow2_def)
  then have "ilog2 q < 100" by (rule pow2_less_imp)
  then have e: "e < 971" by (simp add: e_def)
  have fl: "fl s q = Finite s (of_int m * pow2 e)"
    using False e by (simp add: fl_def Let_def e_def [symmetric] x_def [symmetric] m_def [symmetric])
  have x0: "0 \<le> x" using pos pow2_pos [of e] by (simp add: x_def)
  have q: "q = x * pow2 e" using pow2_pos [of e] by (simp add: x_def)
  have 1: "0 \<le> of_int m * pow2 e"
    using round_half_even_nonneg [OF x0] pow2_pos [of e] by (simp add: m_def)
  have "of_int m * pow2 e \<le> (2 * x) * pow2 e"
    using round_half_even_le_double [OF x0] pow2_pos [of e]
    by (simp add: m_def mult_right_mono)
  then have 2: "of_int m * pow2 e \<le> 2 * q" by (simp add: q)
  have 3: "q / 2 \<le> of_int m * pow2 e" if "1 \<le> q"
  proof -
    have "pow2 e \<le> q"
    proof (cases "ilog2 q - 52 \<le> - 1074")
      case True
      then have "e = - 1074" by (simp add: e_def)
      then have "pow2 e \<le> pow2 0" by (simp add: pow2_mono)
      then show ?thesis using that by (simp add: pow2_def)
    next
      case False
      then have "e \<le> ilog2 q" by (simp add: e_def)
      then have "pow2 e \<le> pow2 (ilog2 q)" by (rule pow2_mono)
      then show ?thesis using ilog2_le [OF pos] by simp
    qed
    then have "1 \<le> x" using pow2_pos [of e] by (simp add: x_def)
    then have "x / 2 \<le> of_int m" unfolding m_def by (rule round_half_even_ge_half)
    then have "(x / 2) * pow2 e \<le> of_int m * pow2 e"
      using pow2_pos [of e] by (simp add: mult_right_mono)
    then show ?thesis by (simp add: q)
  qed
  show ?thesis using fl 1 2 3 by blast
qed

lemma float_of_int_small:
  "float_of_int 0 = Finite False 0"
  "float_of_int 10 = Finite False 10"
  "float_of_int (- 10) = Finite True 10"
  "float_of_int 100 = Finite False 100"
  by code_simp+

lemma float_of_int_int64:
  assumes "\<bar>i\<bar> \<le> 2 ^ 63"
  shows "\<exists>m. float_of_int i = Finite (i < 0) m \<and> 0 \<le> m \<and> m \<le> 2 ^ 64 \<and> (i \<noteq> 0 \<longrightarrow> 1 / 2 \<le> m)"
proof -
  have "(of_int \<bar>i\<bar> :: rat) \<le> of_int (2 ^ 63)"
    using assms by (simp only: of_int_le_iff)
  then have le: "(of_int \<bar>i\<bar> :: rat) \<le> 2 ^ 63" by simp
  then have lt: "(of_int \<bar>i\<bar> :: rat) < 2 ^ 100" by simp
  have "(0::rat) \<le> of_int \<bar>i\<bar>" by simp
  from fl_finite [OF this lt, of "i < 0"]
  obtain m where m: "fl (i < 0) (of_int \<bar>i\<bar>) = Finite (i < 0) m" "0 \<le> m"
    "m \<le> 2 * of_int \<bar>i\<bar>" "1 \<le> (of_int \<bar>i\<bar> :: rat) \<longrightarrow> of_int \<bar>i\<bar> / 2 \<le> m"
    by blast
  have "m \<le> 2 ^ 64" using m(3) le by simp
  moreover have "1 / 2 \<le> m" if "i \<noteq> 0"
  proof -
    have "1 \<le> \<bar>i\<bar>" using that by simp
    then have "(1::rat) \<le> of_int \<bar>i\<bar>" by (simp only: of_int_1_le_iff)
    with m(4) show ?thesis by simp
  qed
  ultimately show ?thesis using m(1,2) by (auto simp: float_of_int_def)
qed

lemma abs_sint_int64: "\<bar>sint (w :: int64)\<bar> \<le> 2 ^ 63"
  using sint_ge [of w] sint_lt [of w] by simp

lemma sint_eq_0_iff: "sint (w :: int64) = 0 \<longleftrightarrow> w = 0"
  by (simp add: signed_eq_0_iff)

lemma round_half_even_of_int: "round_half_even (of_int k) = k"
  by (simp add: round_half_even_def)

lemma fl_exact:
  assumes "0 < n" and "n < 2 ^ 53"
  shows "fl s (of_int n) = Finite s (of_int n)"
proof -
  let ?q = "of_int n :: rat"
  define e where "e = max (ilog2 ?q - 52) (- 1074)"
  have pos: "0 < ?q" using assms(1) by simp
  have "?q < of_int (2 ^ 53)" using assms(2) by (simp only: of_int_less_iff)
  then have "pow2 (ilog2 ?q) < pow2 53"
    using ilog2_le [OF pos] by (simp add: pow2_def)
  then have "ilog2 ?q < 53" by (rule pow2_less_imp)
  then have e: "e \<le> 0" by (simp add: e_def)
  then have p: "pow2 e = 1 / 2 ^ nat (- e)"
    by (cases "e = 0") (simp_all add: pow2_def)
  have "?q / pow2 e = of_int (n * 2 ^ nat (- e))"
    by (simp add: p)
  then have r: "round_half_even (?q / pow2 e) = n * 2 ^ nat (- e)"
    by (simp only: round_half_even_of_int)
  have "of_int (n * 2 ^ nat (- e)) * pow2 e = ?q"
    by (simp add: p)
  then show ?thesis
    using pos e r by (simp add: fl_def Let_def e_def [symmetric])
qed

lemma float_of_int_exact:
  assumes "\<bar>i\<bar> < 2 ^ 53"
  shows "float_of_int i = Finite (i < 0) (of_int \<bar>i\<bar>)"
proof (cases "i = 0")
  case True
  then show ?thesis by (simp add: float_of_int_def fl_def)
next
  case False
  then have "0 < \<bar>i\<bar>" by simp
  from fl_exact [OF this assms] show ?thesis by (simp add: float_of_int_def)
qed

subsection \<open>Percentages and their status\<close>

lemma percent_finite:
  assumes "budget \<noteq> 0"
  shows "\<exists>s m. percent variance budget = Finite s m"
proof -
  obtain ma where a: "float_of_int (sint variance) = Finite (sint variance < 0) ma"
    "0 \<le> ma" "ma \<le> 2 ^ 64"
    using float_of_int_int64 [OF abs_sint_int64 [of variance]] by blast
  have "sint budget \<noteq> 0" using assms by (simp add: sint_eq_0_iff)
  then obtain mb where b: "float_of_int (sint budget) = Finite (sint budget < 0) mb"
    "1 / 2 \<le> mb"
    using float_of_int_int64 [OF abs_sint_int64 [of budget]] by blast
  have mb: "0 < mb" using b(2) by simp
  have q0: "0 \<le> ma / mb" using a(2) mb by simp
  have "ma / mb \<le> 2 ^ 64 / (1 / 2)"
    using a(2,3) b(2) by (intro frac_le) simp_all
  then have q1: "ma / mb < 2 ^ 100" by simp
  define s where "s = ((sint variance < 0) \<noteq> (sint budget < 0))"
  obtain m1 where d: "fl s (ma / mb) = Finite s m1" "0 \<le> m1" "m1 \<le> 2 * (ma / mb)"
    using fl_finite [OF q0 q1, of s] by blast
  have "m1 \<le> 2 ^ 66" using d(3) \<open>ma / mb \<le> 2 ^ 64 / (1 / 2)\<close> by simp
  then have p1: "m1 * 100 < 2 ^ 100" by simp
  have p0: "0 \<le> m1 * 100" using d(2) by simp
  obtain m2 where "fl (s \<noteq> False) (m1 * 100) = Finite (s \<noteq> False) m2"
    using fl_finite [OF p0 p1, of "s \<noteq> False"] by blast
  then show ?thesis
    using a(1) b(1) mb d(1) by (simp add: percent_def float_of_int_small s_def)
qed

lemma percent_zero_budget:
  "percent variance 0 = (if variance = 0 then NaN else Infinity (sint variance < 0))"
proof (cases "variance = 0")
  case True
  then show ?thesis by (simp add: percent_def float_of_int_small)
next
  case False
  then have "sint variance \<noteq> 0" by (simp add: sint_eq_0_iff)
  then obtain m where "float_of_int (sint variance) = Finite (sint variance < 0) m" "1 / 2 \<le> m"
    using float_of_int_int64 [OF abs_sint_int64 [of variance]] by blast
  then show ?thesis using False by (simp add: percent_def float_of_int_small)
qed

lemma status_of_Finite:
  "status_of (Finite s m) =
     (if 10 < float_value s m then ''Red''
      else if float_value s m < - 10 then ''Green'' else ''Yellow'')"
  by (simp add: status_of_def float_of_int_small float_value_def)

lemma status_of_special:
  "status_of (Infinity False) = ''Red''"
  "status_of (Infinity True) = ''Green''"
  "status_of NaN = ''Yellow''"
  by (simp_all add: status_of_def float_of_int_small)

lemma percent_examples:
  "percent 20000 100000 = Finite False 20"
  "percent 10000 100000 = Finite False 10"
  "percent (- 5000) 50000 = Finite True 10"
  by code_simp+

subsection \<open>Formatted amounts\<close>

lemma format_f_2_of_nat:
  "format_f True 2 (Finite False (of_nat n)) = group3 (str_nat n) @ ''.00''"
proof -
  have "(of_nat n :: rat) * 100 = of_int (int (n * 100))" by simp
  then have "round_half_even ((of_nat n :: rat) * 100) = int (n * 100)"
    by (simp only: round_half_even_of_int)
  then have "nat (round_half_even ((of_nat n :: rat) * 100)) = n * 100"
    by (simp only: nat_int)
  moreover have "str_nat 0 = ''0''"
    by (simp add: str_nat.simps digit_def)
  ultimately show ?thesis
    by (simp add: format_f_def zfill_def)
qed

lemma money_exact:
  assumes "\<bar>sint amount\<bar> < 2 ^ 53"
  shows "money amount = ''$'' @ group3 (str_nat (nat \<bar>sint amount\<bar>)) @ ''.00''"
proof -
  have "\<bar>\<bar>sint amount\<bar>\<bar> < 2 ^ 53" using assms by simp
  from float_of_int_exact [OF this]
  have "float_of_int \<bar>sint amount\<bar> = Finite False (of_nat (nat \<bar>sint amount\<bar>))"
    by simp
  then show ?thesis
    by (simp only: money_def format_f_2_of_nat)
qed

lemma str_examples:
  "group3 (str_nat 280000) = ''280,000''" "group3 (str_nat 5000) = ''5,000''"
  by (simp_all add: str_nat.simps digit_def group3.simps)

lemma format_f_0_of_nat:
  "format_f True 0 (Finite s (of_nat n)) = (if s then ''-'' else []) @ group3 (str_nat n)"
proof -
  have "round_half_even (of_nat n :: rat) = int n"
    using round_half_even_of_int [of "int n"] by simp
  then show ?thesis
    by (simp add: format_f_def)
qed

lemma dollars_exact:
  assumes "\<bar>sint amount\<bar> < 2 ^ 53"
  shows "dollars amount
         = ''$'' @ (if sint amount < 0 then ''-'' else []) @ group3 (str_nat (nat \<bar>sint amount\<bar>))"
proof -
  from float_of_int_exact [OF assms]
  have "float_of_int (sint amount) = Finite (sint amount < 0) (of_nat (nat \<bar>sint amount\<bar>))"
    by simp
  then show ?thesis
    by (simp only: dollars_def format_f_0_of_nat)
qed

subsection \<open>The reports of the two sample tables\<close>

lemma sample_digits:
  "group3 (str_nat 620000) = ''620,000''"
  "group3 (str_nat 500000) = ''500,000''"
  "group3 (str_nat 120000) = ''120,000''"
  "group3 (str_nat 280000) = ''280,000''"
  "group3 (str_nat 340000) = ''340,000''"
  "group3 (str_nat 135000) = ''135,000''"
  "group3 (str_nat 205000) = ''205,000''"
  "group3 (str_nat 165000) = ''165,000''"
  by (simp_all add: str_nat.simps digit_def group3.simps)

lemma sample_money:
  "money 620000 = ''$620,000.00''"
  "money 500000 = ''$500,000.00''"
  "money 120000 = ''$120,000.00''"
  "money (- 280000) = ''$280,000.00''"
  "money 340000 = ''$340,000.00''"
  "money (- 135000) = ''$135,000.00''"
  "money 205000 = ''$205,000.00''"
  "money 165000 = ''$165,000.00''"
  by (simp_all add: money_exact sample_digits)

lemma sample_statement_report:
  "income_statement_generator sample_data [] =
     Some [''Income Statement (2023-Q1)'',
           ''----------------------------------------'',
           ''Revenue                       $620,000.00'',
           ''  Product Sales               $500,000.00'',
           ''  Service Revenue             $120,000.00'',
           ''Cost of Goods Sold          ($280,000.00)'',
           ''Gross Profit                  $340,000.00'',
           ''----------------------------------------'',
           ''Operating Expenses          ($135,000.00)'',
           ''Operating Income              $205,000.00'',
           ''----------------------------------------'',
           ''Net Income                    $165,000.00'',
           ''========================================'']"
proof -
  have totals: "get_total sample_data [''Product Sales''] = 500000"
    "get_total sample_data [''Service Revenue''] = 120000"
    by (simp_all add: get_total_def sample_data_def)
  show ?thesis
    by (simp add: income_statement_generator_eq statement_data_eq sample_totals totals
        print_row_def print_def row_text_def amount_str_def sample_money ljust_def rjust_def
        eval_nat_numeral)
qed

lemma sample_percent:
  "percent 20000 100000 = Finite False 20"
  "percent (- 5000) 50000 = Finite True 10"
  "percent 10000 140000 = Finite False (2010535547933257 / 281474976710656)"
  "percent 0 20000 = Finite False 0"
  "percent 3000 22000 = Finite False (7676590273926981 / 562949953421312)"
  by code_simp+

lemma sample_tenths:
  "round_half_even (10052677739666285 / 140737488355328) = 71"
  "round_half_even (38382951369634905 / 281474976710656) = 136"
  by code_simp+

lemma sample_percent_text:
  "format_f False 1 (Finite False 20) = ''20.0''"
  "format_f False 1 (Finite True 10) = ''-10.0''"
  "format_f False 1 (Finite False (2010535547933257 / 281474976710656)) = ''7.1''"
  "format_f False 1 (Finite False 0) = ''0.0''"
  "format_f False 1 (Finite False (7676590273926981 / 562949953421312)) = ''13.6''"
  by (simp_all add: format_f_def sample_tenths round_half_even_of_int [of 200, simplified]
      round_half_even_of_int [of 100, simplified] round_half_even_of_int [of 0, simplified]
      str_nat.simps digit_def zfill_def)

lemma sample_dollars:
  "dollars 120000 = ''$120,000''" "dollars 100000 = ''$100,000''" "dollars 20000 = ''$20,000''"
  "dollars 45000 = ''$45,000''" "dollars 50000 = ''$50,000''" "dollars (- 5000) = ''$-5,000''"
  "dollars 150000 = ''$150,000''" "dollars 140000 = ''$140,000''" "dollars 10000 = ''$10,000''"
  "dollars 0 = ''$0''" "dollars 25000 = ''$25,000''" "dollars 22000 = ''$22,000''"
  "dollars 3000 = ''$3,000''"
  by (simp_all add: dollars_exact str_nat.simps digit_def group3.simps)

lemma sample_variance_table:
  "variance_table sample_budget =
     [\<lparr>Department = ''Sales'', Actual = 120000, Budget = 100000, Variance_abs = 20000,
        Variance_pct = Finite False 20, Status = ''Red''\<rparr>,
      \<lparr>Department = ''Marketing'', Actual = 45000, Budget = 50000, Variance_abs = - 5000,
        Variance_pct = Finite True 10, Status = ''Yellow''\<rparr>,
      \<lparr>Department = ''Engineering'', Actual = 150000, Budget = 140000, Variance_abs = 10000,
        Variance_pct = Finite False (2010535547933257 / 281474976710656), Status = ''Yellow''\<rparr>,
      \<lparr>Department = ''HR'', Actual = 20000, Budget = 20000, Variance_abs = 0,
        Variance_pct = Finite False 0, Status = ''Yellow''\<rparr>,
      \<lparr>Department = ''Finance'', Actual = 25000, Budget = 22000, Variance_abs = 3000,
        Variance_pct = Finite False (7676590273926981 / 562949953421312), Status = ''Red''\<rparr>]"
  by (simp add: sample_budget_def variance_table_Cons variance_table_Nil sample_percent
      status_of_Finite float_value_def)

lemma sample_variance_report:
  "variance_analysis_template sample_budget [] =
     [''Variance Analysis Report'',
      ''============================================================'',
      ''Department          Actual     Budget    Var ($)    Var (%)   Status'',
      ''------------------------------------------------------------'',
      ''Sales           $120,000   $100,000    $20,000      20.0%      Red'',
      ''Marketing       $45,000    $50,000    $-5,000     -10.0%   Yellow'',
      ''Engineering     $150,000   $140,000    $10,000       7.1%   Yellow'',
      ''HR              $20,000    $20,000         $0       0.0%   Yellow'',
      ''Finance         $25,000    $22,000     $3,000      13.6%      Red'']"
  using report_loop_append [of "variance_table sample_budget" "print (replicate 60 CHR ''-'')
          (print report_header
             (print (replicate 60 CHR ''='')
                (print ''Variance Analysis Report'' [])))"]
  by (simp add: variance_analysis_template_def report_loop_map print_def sample_variance_table
        report_header_def report_row_def sample_dollars sample_percent_text [unfolded One_nat_def])
    (simp add: ljust_def rjust_def eval_nat_numeral)

section \<open>The claims\<close>

subsection \<open>C1: category totals and the roll-up\<close>

text \<open>
  C1. For every table of transaction rows, each category total is the sum of Amount over
  the rows whose Sub-Account is in the category's list; an empty list, or a list that no
  row matches, gives 0. The sum is the \<open>int64\<close> sum of the column: it is the sum of the
  signed amounts whenever that sum fits 64 bits. Gross Profit is the Revenue total plus the
  Cost of Goods Sold total, Operating Income is Gross Profit plus the Operating Expenses
  total, and Net Income is Operating Income plus the Taxes total; no lookup in
  \<open>structure\<close> fails, and the lines of the statement carry these amounts.
\<close>

theorem statement_totals_and_subtotals:
  "get_total df sub_accounts
     = (\<Sum>row\<leftarrow>df. if Sub_Account row \<in> set sub_accounts then Amount row else 0)
   \<and> get_total df [] = 0
   \<and> ((\<forall>row \<in> set df. Sub_Account row \<notin> set sub_accounts) \<longrightarrow> get_total df sub_accounts = 0)
   \<and> (- (2 ^ 63) \<le> (\<Sum>row\<leftarrow>filter (\<lambda>row. Sub_Account row \<in> set sub_accounts) df. sint (Amount row))
        \<and> (\<Sum>row\<leftarrow>filter (\<lambda>row. Sub_Account row \<in> set sub_accounts) df. sint (Amount row)) < 2 ^ 63
      \<longrightarrow> sint (get_total df sub_accounts)
          = (\<Sum>row\<leftarrow>filter (\<lambda>row. Sub_Account row \<in> set sub_accounts) df. sint (Amount row)))
   \<and> revenue df = Some (get_total df [''Product Sales'', ''Service Revenue''])
   \<and> cogs df = Some (get_total df [''Material Cost'', ''Labor Cost''])
   \<and> opex df = Some (get_total df [''Marketing'', ''R&D'', ''G&A''])
   \<and> taxes df = Some (get_total df [''Income Tax''])
   \<and> (\<exists>r c x t.
         revenue df = Some r \<and> cogs df = Some c \<and> opex df = Some x \<and> taxes df = Some t
         \<and> gross_profit df = Some (r + c)
         \<and> operating_income df = Some (r + c + x)
         \<and> net_income df = Some (r + c + x + t)
         \<and> map_option (map (\<lambda>line. (Line_Item line, Line_Amount line))) (statement_data df)
             = Some [(''Revenue'', r),
                     (''  Product Sales'', get_total df [''Product Sales'']),
                     (''  Service Revenue'', get_total df [''Service Revenue'']),
                     (''Cost of Goods Sold'', c),
                     (''Gross Profit'', r + c),
                     (''Operating Expenses'', x),
                     (''Operating Income'', r + c + x),
                     (''Net Income'', r + c + x + t)])"
proof -
  have 1: "get_total df sub_accounts
     = (\<Sum>row\<leftarrow>df. if Sub_Account row \<in> set sub_accounts then Amount row else 0)"
    by (rule get_total_sum)
  have 2: "(\<forall>row \<in> set df. Sub_Account row \<notin> set sub_accounts) \<longrightarrow> get_total df sub_accounts = 0"
    using get_total_no_match [of df sub_accounts] by blast
  have 3: "map_option (map (\<lambda>line. (Line_Item line, Line_Amount line))) (statement_data df)
             = Some [(''Revenue'', get_total df [''Product Sales'', ''Service Revenue'']),
                     (''  Product Sales'', get_total df [''Product Sales'']),
                     (''  Service Revenue'', get_total df [''Service Revenue'']),
                     (''Cost of Goods Sold'', get_total df [''Material Cost'', ''Labor Cost'']),
                     (''Gross Profit'', get_total df [''Product Sales'', ''Service Revenue'']
                        + get_total df [''Material Cost'', ''Labor Cost'']),
                     (''Operating Expenses'', get_total df [''Marketing'', ''R&D'', ''G&A'']),
                     (''Operating Income'', get_total df [''Product Sales'', ''Service Revenue'']
                        + get_total df [''Material Cost'', ''Labor Cost'']
                        + get_total df [''Marketing'', ''R&D'', ''G&A'']),
                     (''Net Income'', get_total df [''Product Sales'', ''Service Revenue'']
                        + get_total df [''Material Cost'', ''Labor Cost'']
                        + get_total df [''Marketing'', ''R&D'', ''G&A'']
                        + get_total df [''Income Tax''])]"
    by (simp add: statement_data_eq)
  have 4: "\<exists>r c x t.
         revenue df = Some r \<and> cogs df = Some c \<and> opex df = Some x \<and> taxes df = Some t
         \<and> gross_profit df = Some (r + c)
         \<and> operating_income df = Some (r + c + x)
         \<and> net_income df = Some (r + c + x + t)
         \<and> map_option (map (\<lambda>line. (Line_Item line, Line_Amount line))) (statement_data df)
             = Some [(''Revenue'', r),
                     (''  Product Sales'', get_total df [''Product Sales'']),
                     (''  Service Revenue'', get_total df [''Service Revenue'']),
                     (''Cost of Goods Sold'', c),
                     (''Gross Profit'', r + c),
                     (''Operating Expenses'', x),
                     (''Operating Income'', r + c + x),
                     (''Net Income'', r + c + x + t)]"
    by (simp add: 3 revenue_eq cogs_eq opex_eq taxes_eq gross_profit_eq operating_income_eq
        net_income_eq)
  have 5: "- (2 ^ 63) \<le> (\<Sum>row\<leftarrow>filter (\<lambda>row. Sub_Account row \<in> set sub_accounts) df. sint (Amount row))
        \<and> (\<Sum>row\<leftarrow>filter (\<lambda>row. Sub_Account row \<in> set sub_accounts) df. sint (Amount row)) < 2 ^ 63
      \<longrightarrow> sint (get_total df sub_accounts)
          = (\<Sum>row\<leftarrow>filter (\<lambda>row. Sub_Account row \<in> set sub_accounts) df. sint (Amount row))"
    using get_total_exact [of sub_accounts df] by blast
  show ?thesis
    by (intro conjI 1 2 4 5 get_total_Nil revenue_eq cogs_eq opex_eq taxes_eq)
qed

theorem statement_totals_and_subtotals_witness:
  "filter (\<lambda>row. Sub_Account row \<in> set [''Dividends'']) sample_data = []
   \<and> get_total sample_data [''Dividends''] = 0
   \<and> sint (get_total sample_data [''Dividends'']) = 0
   \<and> revenue sample_data = Some 620000
   \<and> cogs sample_data = Some (- 280000)
   \<and> gross_profit sample_data = Some 340000
   \<and> opex sample_data = Some (- 135000)
   \<and> operating_income sample_data = Some 205000
   \<and> taxes sample_data = Some (- 40000)
   \<and> net_income sample_data = Some 165000"
proof -
  note t = statement_totals_and_subtotals [of sample_data "[''Dividends'']"]
  have none: "\<forall>row \<in> set sample_data. Sub_Account row \<notin> set [''Dividends'']"
    by (simp add: sample_data_def)
  have 0: "filter (\<lambda>row. Sub_Account row \<in> set [''Dividends'']) sample_data = []"
    by (simp add: sample_data_def)
  have 1: "get_total sample_data [''Dividends''] = 0"
    using t none by blast
  have z: "filter (\<lambda>row. Sub_Account row = ''Dividends'') sample_data = []"
    by (simp add: sample_data_def)
  have "- (2 ^ 63) \<le> (\<Sum>row\<leftarrow>filter (\<lambda>row. Sub_Account row \<in> set [''Dividends'']) sample_data. sint (Amount row))
        \<and> (\<Sum>row\<leftarrow>filter (\<lambda>row. Sub_Account row \<in> set [''Dividends'']) sample_data. sint (Amount row)) < 2 ^ 63
      \<longrightarrow> sint (get_total sample_data [''Dividends''])
          = (\<Sum>row\<leftarrow>filter (\<lambda>row. Sub_Account row \<in> set [''Dividends'']) sample_data. sint (Amount row))"
    using t by blast
  then have 2: "sint (get_total sample_data [''Dividends'']) = 0"
    by (simp add: z)
  have r: "revenue sample_data = Some 620000" and c: "cogs sample_data = Some (- 280000)"
    and x: "opex sample_data = Some (- 135000)" and tx: "taxes sample_data = Some (- 40000)"
    using t by (simp_all only: sample_totals)
  from t obtain r' c' x' t' where
    "revenue sample_data = Some r'" "cogs sample_data = Some c'" "opex sample_data = Some x'"
    "taxes sample_data = Some t'" "gross_profit sample_data = Some (r' + c')"
    "operating_income sample_data = Some (r' + c' + x')"
    "net_income sample_data = Some (r' + c' + x' + t')"
    by blast
  with r c x tx have "gross_profit sample_data = Some 340000"
    "operating_income sample_data = Some 205000" "net_income sample_data = Some 165000"
    by simp_all
  with 0 1 2 r c x tx show ?thesis by simp
qed

subsection \<open>C2: rows with a zero budget\<close>

text \<open>
  C2, as amended. The script has no branch for a zero budget: the division is the
  \<open>float64\<close> division of the two columns, which raises nothing and gives not-a-number
  for \<open>0 / 0\<close> and an infinity with the sign of the dividend otherwise. So for every
  row with budget 0 the variance is the actual figure; with actual 0 the percentage is
  not-a-number and the status Yellow, with a positive actual the percentage is plus
  infinity and the status Red, with a negative actual it is minus infinity and the status
  Green. The report prints these percentages as \<open>nan\<close>, \<open>inf\<close> and \<open>-inf\<close>.
\<close>

theorem zero_budget_rows:
  assumes "i < length df" and "Budget (df ! i) = 0"
  shows "Variance_abs (variance_table df ! i) = Actual (df ! i)
    \<and> Variance_pct (variance_table df ! i)
        = (if Actual (df ! i) = 0 then NaN else Infinity (sint (Actual (df ! i)) < 0))
    \<and> Status (variance_table df ! i)
        = (if Actual (df ! i) = 0 then ''Yellow''
           else if sint (Actual (df ! i)) < 0 then ''Green'' else ''Red'')
    \<and> format_f False 1 (Variance_pct (variance_table df ! i))
        = (if Actual (df ! i) = 0 then ''nan''
           else if sint (Actual (df ! i)) < 0 then ''-inf'' else ''inf'')"
  using assms
  by (simp add: variance_table_nth percent_zero_budget status_of_special format_f_def)

theorem zero_budget_rows_witness:
  "Budget (\<lparr>Department = ''HR'', Actual = 0, Budget = 0\<rparr> :: budget_row) = 0
   \<and> Variance_pct (variance_table
         [\<lparr>Department = ''Sales'', Actual = 120000, Budget = 0\<rparr>,
          \<lparr>Department = ''HR'', Actual = 0, Budget = 0\<rparr>,
          \<lparr>Department = ''Refunds'', Actual = - 300, Budget = 0\<rparr>] ! 1) = NaN
   \<and> Status (variance_table
         [\<lparr>Department = ''Sales'', Actual = 120000, Budget = 0\<rparr>,
          \<lparr>Department = ''HR'', Actual = 0, Budget = 0\<rparr>,
          \<lparr>Department = ''Refunds'', Actual = - 300, Budget = 0\<rparr>] ! 1) = ''Yellow''
   \<and> Variance_pct (variance_table
         [\<lparr>Department = ''Sales'', Actual = 120000, Budget = 0\<rparr>,
          \<lparr>Department = ''HR'', Actual = 0, Budget = 0\<rparr>,
          \<lparr>Department = ''Refunds'', Actual = - 300, Budget = 0\<rparr>] ! 2) = Infinity True
   \<and> Status (variance_table
         [\<lparr>Department = ''Sales'', Actual = 120000, Budget = 0\<rparr>,
          \<lparr>Department = ''HR'', Actual = 0, Budget = 0\<rparr>,
          \<lparr>Department = ''Refunds'', Actual = - 300, Budget = 0\<rparr>] ! 2) = ''Green''"
  using zero_budget_rows [of 1 "[\<lparr>Department = ''Sales'', Actual = 120000, Budget = 0\<rparr>,
          \<lparr>Department = ''HR'', Actual = 0, Budget = 0\<rparr>,
          \<lparr>Department = ''Refunds'', Actual = - 300, Budget = 0\<rparr>]"]
    zero_budget_rows [of 2 "[\<lparr>Department = ''Sales'', Actual = 120000, Budget = 0\<rparr>,
          \<lparr>Department = ''HR'', Actual = 0, Budget = 0\<rparr>,
          \<lparr>Department = ''Refunds'', Actual = - 300, Budget = 0\<rparr>]"]
  by simp

text \<open>
  C2 as stated (status Yellow for every row with budget 0) fails on the row with actual
  120000 and budget 0: its percentage is plus infinity, which is above 10, and its status
  is Red.
\<close>

theorem zero_budget_not_yellow_counterexample:
  "variance_table [\<lparr>Department = ''Sales'', Actual = 120000, Budget = 0\<rparr>]
     = [\<lparr>Department = ''Sales'', Actual = 120000, Budget = 0, Variance_abs = 120000,
         Variance_pct = Infinity False, Status = ''Red''\<rparr>]"
  by (simp add: variance_table_Cons variance_table_Nil percent_zero_budget status_of_special)

subsection \<open>C3: the status thresholds\<close>

text \<open>
  C3. For every row with a nonzero budget the percentage is a finite \<open>float64\<close>
  number, and the status is Red when it is above 10, Green when it is below -10 and Yellow
  otherwise; a percentage of exactly 10 or exactly -10 gives Yellow. (Actual 110000 against
  budget 100000 gives exactly 10.0, and actual 45000 against budget 50000 exactly -10.0.)
\<close>

theorem status_thresholds:
  assumes "i < length df" and "Budget (df ! i) \<noteq> 0"
  shows "\<exists>s m. Variance_pct (variance_table df ! i) = Finite s m
    \<and> Status (variance_table df ! i)
        = (if 10 < float_value s m then ''Red''
           else if float_value s m < - 10 then ''Green'' else ''Yellow'')
    \<and> (float_value s m = 10 \<longrightarrow> Status (variance_table df ! i) = ''Yellow'')
    \<and> (float_value s m = - 10 \<longrightarrow> Status (variance_table df ! i) = ''Yellow'')"
proof -
  obtain s m where
    "percent (Actual (df ! i) - Budget (df ! i)) (Budget (df ! i)) = Finite s m"
    using percent_finite [OF assms(2)] by blast
  then show ?thesis
    using assms(1) by (simp add: variance_table_nth status_of_Finite)
qed

theorem status_thresholds_witness:
  "Budget (\<lparr>Department = ''Ops'', Actual = 110000, Budget = 100000\<rparr> :: budget_row) \<noteq> 0
   \<and> Variance_pct (variance_table
         [\<lparr>Department = ''Ops'', Actual = 110000, Budget = 100000\<rparr>] ! 0) = Finite False 10
   \<and> float_value False 10 = 10
   \<and> Status (variance_table
         [\<lparr>Department = ''Ops'', Actual = 110000, Budget = 100000\<rparr>] ! 0) = ''Yellow''
   \<and> Variance_pct (variance_table
         [\<lparr>Department = ''Marketing'', Actual = 45000, Budget = 50000\<rparr>] ! 0) = Finite True 10
   \<and> float_value True 10 = - 10
   \<and> Status (variance_table
         [\<lparr>Department = ''Marketing'', Actual = 45000, Budget = 50000\<rparr>] ! 0) = ''Yellow''"
proof -
  let ?a = "[\<lparr>Department = ''Ops'', Actual = 110000, Budget = 100000\<rparr>] :: budget_row list"
  let ?b = "[\<lparr>Department = ''Marketing'', Actual = 45000, Budget = 50000\<rparr>] :: budget_row list"
  have pa: "Variance_pct (variance_table ?a ! 0) = Finite False 10"
    by (simp add: variance_table_Cons percent_examples)
  have pb: "Variance_pct (variance_table ?b ! 0) = Finite True 10"
    by (simp add: variance_table_Cons percent_examples)
  obtain s m where "Variance_pct (variance_table ?a ! 0) = Finite s m"
    "float_value s m = 10 \<longrightarrow> Status (variance_table ?a ! 0) = ''Yellow''"
    using status_thresholds [of 0 ?a] by auto
  with pa have sa: "Status (variance_table ?a ! 0) = ''Yellow''"
    by (simp add: float_value_def)
  obtain t n where "Variance_pct (variance_table ?b ! 0) = Finite t n"
    "float_value t n = - 10 \<longrightarrow> Status (variance_table ?b ! 0) = ''Yellow''"
    using status_thresholds [of 0 ?b] by auto
  with pb have sb: "Status (variance_table ?b ! 0) = ''Yellow''"
    by (simp add: float_value_def)
  show ?thesis
    using pa pb sa sb by (simp add: float_value_def)
qed

subsection \<open>C4: the lines of the statement and their order\<close>

text \<open>
  C4. On the sample table, which has a Tax row, the statement has eight lines: the Revenue
  header, its two Detail lines, the Cost of Goods Sold header, Gross Profit (Total), the
  Operating Expenses header, Operating Income (Total) and Net Income (Grand Total). The
  taxes total of -40000 is computed and takes Operating Income of 205000 to Net Income of
  165000, but no Taxes line is listed between the two, although \<open>structure\<close> names one
  there. (The lines and their order are the same for every table: lemma
  \<open>statement_line_order\<close>.)
\<close>

theorem statement_lines_sample:
  "map_option (map (\<lambda>line. (Line_Item line, Line_Type line))) (statement_data sample_data)
     = Some [(''Revenue'', ''Header''), (''  Product Sales'', ''Detail''),
             (''  Service Revenue'', ''Detail''), (''Cost of Goods Sold'', ''Header''),
             (''Gross Profit'', ''Total''), (''Operating Expenses'', ''Header''),
             (''Operating Income'', ''Total''), (''Net Income'', ''Grand Total'')]
   \<and> filter (\<lambda>row. Account row = ''Tax'') sample_data
       = [\<lparr>Account = ''Tax'', Sub_Account = ''Income Tax'', Amount = - 40000,
            Period = ''2023-Q1''\<rparr>]
   \<and> taxes sample_data = Some (- 40000)
   \<and> operating_income sample_data = Some 205000
   \<and> net_income sample_data = Some 165000"
proof -
  have "filter (\<lambda>row. Account row = ''Tax'') sample_data
       = [\<lparr>Account = ''Tax'', Sub_Account = ''Income Tax'', Amount = - 40000,
            Period = ''2023-Q1''\<rparr>]"
    by (simp add: sample_data_def)
  then show ?thesis
    by (simp add: statement_line_order taxes_eq operating_income_eq net_income_eq sample_totals)
qed

subsection \<open>C5: negative amounts and separator rules\<close>

text \<open>
  C5, as amended. A line with a negative amount and type Header, Detail or Grand Total
  shows the magnitude of the amount in parentheses; a Total line shows the magnitude with
  neither parentheses nor sign. The magnitude is the absolute amount with thousands
  separators and two decimals (exactly so below \<open>2\<^sup>5\<^sup>3\<close>, where the conversion to a float
  is exact). Every line is the label padded to 25 columns, a space, and the amount text
  padded to 15 columns on the left, so it is at least 41 characters wide, and exactly 41
  when label and amount text fit their columns. A Total line is followed by a rule of
  dashes and the Grand Total line by a rule of equals signs, both 40 characters wide: the
  fixed width of the rule under the title, one less than the width of a printed line. The
  printed statement is the title, that rule, and the eight lines with their three rules.
\<close>

theorem statement_rendering:
  "(sint (Line_Amount row) < 0
      \<and> (Line_Type row = ''Header'' \<or> Line_Type row = ''Detail'' \<or> Line_Type row = ''Grand Total'')
     \<longrightarrow> amount_str row
          = ''($'' @ format_f True 2 (float_of_int \<bar>sint (Line_Amount row)\<bar>) @ '')'')
   \<and> (Line_Type row = ''Total''
     \<longrightarrow> amount_str row = ''$'' @ format_f True 2 (float_of_int \<bar>sint (Line_Amount row)\<bar>))
   \<and> (\<bar>sint (Line_Amount row)\<bar> < 2 ^ 53
     \<longrightarrow> format_f True 2 (float_of_int \<bar>sint (Line_Amount row)\<bar>)
          = group3 (str_nat (nat \<bar>sint (Line_Amount row)\<bar>)) @ ''.00'')
   \<and> row_text row = ljust 25 (Line_Item row) @ '' '' @ rjust 15 (amount_str row)
   \<and> 41 \<le> length (row_text row)
   \<and> (length (Line_Item row) \<le> 25 \<and> length (amount_str row) \<le> 15
     \<longrightarrow> length (row_text row) = 41)
   \<and> length (replicate 40 CHR ''-'') = 40 \<and> length (replicate 40 CHR ''='') = 40
   \<and> print_row row out
       = out @ row_text row
           # (if Line_Type row = ''Total'' then [replicate 40 CHR ''-'']
              else if Line_Type row = ''Grand Total'' then [replicate 40 CHR ''='']
              else [])
   \<and> (\<exists>revenue_line sales_line service_line cogs_line gross_line opex_line operating_line
         net_line.
        statement_data df
          = Some [revenue_line, sales_line, service_line, cogs_line, gross_line, opex_line,
                  operating_line, net_line]
        \<and> Line_Type gross_line = ''Total'' \<and> Line_Type operating_line = ''Total''
        \<and> Line_Type net_line = ''Grand Total''
        \<and> income_statement_generator df out
            = Some (out @
                [''Income Statement (2023-Q1)'',
                 replicate 40 CHR ''-'',
                 row_text revenue_line, row_text sales_line, row_text service_line,
                 row_text cogs_line,
                 row_text gross_line, replicate 40 CHR ''-'',
                 row_text opex_line,
                 row_text operating_line, replicate 40 CHR ''-'',
                 row_text net_line, replicate 40 CHR ''='']))"
proof -
  have 1: "sint (Line_Amount row) < 0
      \<and> (Line_Type row = ''Header'' \<or> Line_Type row = ''Detail'' \<or> Line_Type row = ''Grand Total'')
     \<longrightarrow> amount_str row
          = ''($'' @ format_f True 2 (float_of_int \<bar>sint (Line_Amount row)\<bar>) @ '')''"
    by (auto simp: amount_str_def money_def)
  have 2: "Line_Type row = ''Total''
     \<longrightarrow> amount_str row = ''$'' @ format_f True 2 (float_of_int \<bar>sint (Line_Amount row)\<bar>)"
    by (simp add: amount_str_def money_def)
  have 3: "\<bar>sint (Line_Amount row)\<bar> < 2 ^ 53
     \<longrightarrow> format_f True 2 (float_of_int \<bar>sint (Line_Amount row)\<bar>)
          = group3 (str_nat (nat \<bar>sint (Line_Amount row)\<bar>)) @ ''.00''"
    using money_exact [of "Line_Amount row"] by (simp add: money_def)
  have 4: "row_text row = ljust 25 (Line_Item row) @ '' '' @ rjust 15 (amount_str row)"
    by (simp add: row_text_def)
  have w: "41 \<le> length (row_text row)"
    "length (Line_Item row) \<le> 25 \<and> length (amount_str row) \<le> 15
     \<longrightarrow> length (row_text row) = 41"
    "length (replicate 40 CHR ''-'') = 40" "length (replicate 40 CHR ''='') = 40"
    by (simp_all add: row_text_length_ge row_text_length)
  have 5: "print_row row out
       = out @ row_text row
           # (if Line_Type row = ''Total'' then [replicate 40 CHR ''-'']
              else if Line_Type row = ''Grand Total'' then [replicate 40 CHR ''='']
              else [])"
    by (simp add: print_row_def print_def)
  have 6: "\<exists>revenue_line sales_line service_line cogs_line gross_line opex_line operating_line
         net_line.
        statement_data df
          = Some [revenue_line, sales_line, service_line, cogs_line, gross_line, opex_line,
                  operating_line, net_line]
        \<and> Line_Type gross_line = ''Total'' \<and> Line_Type operating_line = ''Total''
        \<and> Line_Type net_line = ''Grand Total''
        \<and> income_statement_generator df out
            = Some (out @
                [''Income Statement (2023-Q1)'',
                 replicate 40 CHR ''-'',
                 row_text revenue_line, row_text sales_line, row_text service_line,
                 row_text cogs_line,
                 row_text gross_line, replicate 40 CHR ''-'',
                 row_text opex_line,
                 row_text operating_line, replicate 40 CHR ''-'',
                 row_text net_line, replicate 40 CHR ''=''])"
    by (simp add: income_statement_generator_eq statement_data_eq print_row_def print_def)
  show ?thesis
    by (intro conjI 1 2 3 4 w 5 6)
qed

theorem statement_rendering_witness:
  "sint (- 280000 :: int64) < 0
   \<and> amount_str \<lparr>Line_Item = ''Cost of Goods Sold'', Line_Amount = - 280000,
                  Line_Type = ''Header''\<rparr> = ''($280,000.00)''
   \<and> amount_str \<lparr>Line_Item = ''Gross Profit'', Line_Amount = - 5000,
                  Line_Type = ''Total''\<rparr> = ''$5,000.00''
   \<and> print_row \<lparr>Line_Item = ''Gross Profit'', Line_Amount = - 5000, Line_Type = ''Total''\<rparr> []
       = [''Gross Profit                    $5,000.00'',
          ''----------------------------------------'']
   \<and> length ''Gross Profit                    $5,000.00'' = 41
   \<and> length ''----------------------------------------'' = 40"
proof -
  let ?h = "\<lparr>Line_Item = ''Cost of Goods Sold'', Line_Amount = - 280000 :: int64,
              Line_Type = ''Header''\<rparr>"
  let ?t = "\<lparr>Line_Item = ''Gross Profit'', Line_Amount = - 5000 :: int64, Line_Type = ''Total''\<rparr>"
  have a: "amount_str ?h = ''($280,000.00)''"
    using statement_rendering [of ?h "[]" "[]"] by (simp add: str_examples)
  have b: "amount_str ?t = ''$5,000.00''"
    using statement_rendering [of ?t "[]" "[]"] by (simp add: str_examples)
  have "print_row ?t [] = [row_text ?t, replicate 40 CHR ''-'']"
    using statement_rendering [of ?t "[]" "[]"] by simp
  then have c: "print_row ?t []
       = [''Gross Profit                    $5,000.00'',
          ''----------------------------------------'']"
    by (simp add: row_text_def b ljust_def rjust_def eval_nat_numeral)
  show ?thesis using a b c by simp
qed

text \<open>
  C5 as stated (rules of the width of the report's columns) fails on the sample table: every
  line of amounts is 41 characters wide, and the rules after Gross Profit, Operating
  Income and Net Income are 40 wide, as is the rule under the 26 characters of the title.
\<close>

theorem rule_width_counterexample:
  "map length (the (income_statement_generator sample_data []))
     = [26, 40, 41, 41, 41, 41, 41, 40, 41, 41, 40, 41, 40]"
  by (simp add: sample_statement_report)

subsection \<open>C6: the variance columns\<close>

text \<open>
  C6. For every row the absolute variance is actual minus budget, an \<open>int64\<close>
  difference (the difference of the signed numbers whenever that fits 64 bits), and the
  percentage is the \<open>float64\<close> quotient of the absolute variance by the budget, times
  100. Actual 120000 against budget 100000 gives the variance 20000, the percentage 20.0
  and the status Red.
\<close>

theorem variance_columns:
  assumes "i < length df"
  shows "Variance_abs (variance_table df ! i) = Actual (df ! i) - Budget (df ! i)
    \<and> (- (2 ^ 63) \<le> sint (Actual (df ! i)) - sint (Budget (df ! i))
        \<and> sint (Actual (df ! i)) - sint (Budget (df ! i)) < 2 ^ 63
       \<longrightarrow> sint (Variance_abs (variance_table df ! i))
           = sint (Actual (df ! i)) - sint (Budget (df ! i)))
    \<and> Variance_pct (variance_table df ! i)
        = float_mul
            (float_div (float_of_int (sint (Variance_abs (variance_table df ! i))))
               (float_of_int (sint (Budget (variance_table df ! i)))))
            (float_of_int 100)
    \<and> variance_table [\<lparr>Department = department, Actual = 120000, Budget = 100000\<rparr>]
        = [\<lparr>Department = department, Actual = 120000, Budget = 100000,
            Variance_abs = 20000, Variance_pct = Finite False 20, Status = ''Red''\<rparr>]"
proof -
  have 1: "Variance_abs (variance_table df ! i) = Actual (df ! i) - Budget (df ! i)"
    using assms by (simp add: variance_table_nth)
  have 2: "- (2 ^ 63) \<le> sint (Actual (df ! i)) - sint (Budget (df ! i))
        \<and> sint (Actual (df ! i)) - sint (Budget (df ! i)) < 2 ^ 63
       \<longrightarrow> sint (Variance_abs (variance_table df ! i))
           = sint (Actual (df ! i)) - sint (Budget (df ! i))"
    by (simp add: 1 sint_word_ariths signed_take_bit_int_eq_self)
  have 3: "Variance_pct (variance_table df ! i)
        = float_mul
            (float_div (float_of_int (sint (Variance_abs (variance_table df ! i))))
               (float_of_int (sint (Budget (variance_table df ! i)))))
            (float_of_int 100)"
    using assms by (simp add: variance_table_nth percent_def)
  have 4: "variance_table [\<lparr>Department = department, Actual = 120000, Budget = 100000\<rparr>]
        = [\<lparr>Department = department, Actual = 120000, Budget = 100000,
            Variance_abs = 20000, Variance_pct = Finite False 20, Status = ''Red''\<rparr>]"
    by (simp add: variance_table_Cons variance_table_Nil percent_examples status_of_Finite
        float_value_def)
  show ?thesis
    by (intro conjI 1 2 3 4)
qed

theorem variance_columns_witness:
  "(0::nat) < length [\<lparr>Department = ''Marketing'', Actual = 45000, Budget = 50000\<rparr>]
   \<and> sint (Variance_abs (variance_table
        [\<lparr>Department = ''Marketing'', Actual = 45000, Budget = 50000\<rparr>] ! 0)) = - 5000
   \<and> Variance_pct (variance_table
        [\<lparr>Department = ''Marketing'', Actual = 45000, Budget = 50000\<rparr>] ! 0) = Finite True 10
   \<and> variance_table [\<lparr>Department = ''Sales'', Actual = 120000, Budget = 100000\<rparr>]
        = [\<lparr>Department = ''Sales'', Actual = 120000, Budget = 100000,
            Variance_abs = 20000, Variance_pct = Finite False 20, Status = ''Red''\<rparr>]"
proof -
  let ?df = "[\<lparr>Department = ''Marketing'', Actual = 45000, Budget = 50000\<rparr>] :: budget_row list"
  have len: "0 < length ?df" by simp
  note t = variance_columns [OF len, of "''Sales''"]
  have "Variance_abs (variance_table ?df ! 0) = - 5000"
    using t by simp
  moreover have "Variance_pct (variance_table ?df ! 0) = Finite True 10"
    by (simp add: variance_table_Cons percent_examples)
  ultimately show ?thesis using t by simp
qed

subsection \<open>C7: Detail lines add up to their header\<close>

text \<open>
  C7, as amended. For every table of transaction rows and every Header line of the
  statement under which Detail lines are listed, the amounts of these Detail lines add up
  (in \<open>int64\<close>) to the amount of the header, and each Detail amount is the sum of Amount
  over the rows whose Sub-Account is the one the Detail line names (its label without the
  indentation of two spaces). The fixed list of lines of the script has Detail lines under
  the Revenue header only: such a header is the Revenue header, and the Cost of Goods Sold
  and Operating Expenses headers have no Detail line under them.
\<close>

theorem details_sum_to_header:
  assumes "statement_data df = Some lines"
    and "header \<in> set lines" and "Line_Type header = ''Header''"
    and "details_under (Line_Item header) lines \<noteq> []"
  shows "sum_list (map Line_Amount (details_under (Line_Item header) lines)) = Line_Amount header
    \<and> (\<forall>detail \<in> set (details_under (Line_Item header) lines).
          Line_Type detail = ''Detail''
          \<and> Line_Amount detail
              = sum_list (map Amount
                  (filter (\<lambda>row. Sub_Account row = drop 2 (Line_Item detail)) df)))
    \<and> Line_Item header = ''Revenue''
    \<and> details_under ''Cost of Goods Sold'' lines = []
    \<and> details_under ''Operating Expenses'' lines = []"
proof -
  have "Line_Item header = ''Revenue'' \<or> Line_Item header = ''Cost of Goods Sold''
        \<or> Line_Item header = ''Operating Expenses''"
    using assms(1,2,3) by (auto simp: statement_data_eq)
  then have item: "Line_Item header = ''Revenue''"
    using assms(4) details_under_statement(2,3) [OF assms(1)] by auto
  then have amount: "Line_Amount header = get_total df [''Product Sales'', ''Service Revenue'']"
    using assms(1,2,3) by (auto simp: statement_data_eq)
  have "get_total df [''Product Sales''] + get_total df [''Service Revenue'']
        = get_total df [''Product Sales'', ''Service Revenue'']"
    by (rule get_total_pair) simp
  then show ?thesis
    by (simp add: item amount details_under_statement [OF assms(1)] get_total_single)
qed

theorem details_sum_to_header_witness:
  "statement_data sample_data \<noteq> None
   \<and> hd (the (statement_data sample_data)) \<in> set (the (statement_data sample_data))
   \<and> Line_Item (hd (the (statement_data sample_data))) = ''Revenue''
   \<and> Line_Type (hd (the (statement_data sample_data))) = ''Header''
   \<and> map Line_Amount (details_under ''Revenue'' (the (statement_data sample_data)))
       = [500000, 120000]
   \<and> Line_Amount (hd (the (statement_data sample_data))) = 620000"
proof -
  obtain lines where lines: "statement_data sample_data = Some lines"
    by (simp add: statement_data_eq)
  have hd: "hd lines = \<lparr>Line_Item = ''Revenue'', Line_Amount = 620000, Line_Type = ''Header''\<rparr>"
    using lines by (auto simp: statement_data_eq sample_totals)
  have mem: "hd lines \<in> set lines"
    using lines by (auto simp: statement_data_eq)
  have details: "map Line_Amount (details_under ''Revenue'' lines) = [500000, 120000]"
    by (simp add: details_under_statement(1) [OF lines] get_total_def sample_data_def)
  then have ne: "details_under (Line_Item (hd lines)) lines \<noteq> []"
    by (auto simp: hd)
  have "sum_list (map Line_Amount (details_under (Line_Item (hd lines)) lines))
        = Line_Amount (hd lines)"
    using details_sum_to_header [OF lines mem _ ne] by (simp add: hd)
  then show ?thesis
    using lines hd mem details by simp
qed

text \<open>
  C7 as stated (for every header) fails on the sample table at the Cost of Goods Sold
  header: no Detail line is listed under it, so the sum of its Detail amounts is 0, and
  its own amount is -280000.
\<close>

theorem details_sum_counterexample:
  "Line_Item (the (statement_data sample_data) ! 3) = ''Cost of Goods Sold''
   \<and> Line_Type (the (statement_data sample_data) ! 3) = ''Header''
   \<and> Line_Amount (the (statement_data sample_data) ! 3) = - 280000
   \<and> details_under ''Cost of Goods Sold'' (the (statement_data sample_data)) = []
   \<and> sum_list (map Line_Amount
         (details_under ''Cost of Goods Sold'' (the (statement_data sample_data))))
       \<noteq> Line_Amount (the (statement_data sample_data) ! 3)"
proof -
  obtain lines where lines: "statement_data sample_data = Some lines"
    by (simp add: statement_data_eq)
  have d: "details_under ''Cost of Goods Sold'' lines = []"
    by (rule details_under_statement(2) [OF lines])
  have l3: "lines ! 3 = \<lparr>Line_Item = ''Cost of Goods Sold'', Line_Amount = - 280000,
                         Line_Type = ''Header''\<rparr>"
    using lines by (auto simp: statement_data_eq sample_totals)
  show ?thesis
    by (simp add: lines d l3)
qed

subsection \<open>C8: running a script again\<close>

text \<open>
  C8. What a run of either script appends to the standard output depends on the input
  table only, not on what was printed before: a second run on the same table appends the
  same lines as the first one. (The statement script never fails on a lookup in
  \<open>structure\<close>, so it always prints.)
\<close>

theorem rerun_prints_same_report:
  "income_statement_generator df out
     = map_option (\<lambda>report. out @ report) (income_statement_generator df [])
   \<and> (income_statement_generator df out \<bind> income_statement_generator df)
     = map_option (\<lambda>report. out @ report @ report) (income_statement_generator df [])
   \<and> income_statement_generator df [] \<noteq> None
   \<and> variance_analysis_template table out = out @ variance_analysis_template table []
   \<and> variance_analysis_template table (variance_analysis_template table out)
     = out @ variance_analysis_template table [] @ variance_analysis_template table []"
proof -
  have 0: "income_statement_generator df out
     = map_option (\<lambda>report. out @ report) (income_statement_generator df [])"
    by (simp add: income_statement_generator_eq statement_data_eq)
  have 1: "(income_statement_generator df out \<bind> income_statement_generator df)
     = map_option (\<lambda>report. out @ report @ report) (income_statement_generator df [])"
    by (simp add: income_statement_generator_eq statement_data_eq)
  have 2: "income_statement_generator df [] \<noteq> None"
    by (simp add: income_statement_generator_eq statement_data_eq)
  have v: "variance_analysis_template table out' = out' @ variance_analysis_template table []"
    for out'
    using report_loop_append [of "variance_table table" "print (replicate 60 CHR ''-'')
          (print report_header
             (print (replicate 60 CHR ''='')
                (print ''Variance Analysis Report'' out')))"]
      report_loop_append [of "variance_table table" "print (replicate 60 CHR ''-'')
          (print report_header
             (print (replicate 60 CHR ''='')
                (print ''Variance Analysis Report'' [])))"]
    by (simp add: variance_analysis_template_def print_def)
  have 3: "variance_analysis_template table (variance_analysis_template table out)
     = out @ variance_analysis_template table [] @ variance_analysis_template table []"
    using v [of "variance_analysis_template table out"] v [of out] by simp
  show ?thesis
    by (intro conjI 0 1 2 v 3)
qed

subsection \<open>C9: the statement reads Sub-Account and Amount only\<close>

text \<open>
  C9. Two tables with the same Sub-Account column and the same Amount column give the same
  totals, the same statement lines and the same printed statement, whatever their Account
  and Period columns hold; and a row whose Sub-Account is in a category's list adds its
  amount to that category's total whatever its Account and Period are.
\<close>

theorem statement_ignores_account_and_period:
  assumes "map Sub_Account df = map Sub_Account df'" and "map Amount df = map Amount df'"
  shows "get_total df sub_accounts = get_total df' sub_accounts
    \<and> statement_data df = statement_data df'
    \<and> income_statement_generator df out = income_statement_generator df' out
    \<and> get_total (row\<lparr>Account := account, Period := period\<rparr> # df) sub_accounts
        = (if Sub_Account row \<in> set sub_accounts then Amount row + get_total df' sub_accounts
           else get_total df' sub_accounts)"
proof -
  have t: "get_total df subs = get_total df' subs" for subs
    using assms by (rule get_total_cong)
  have 1: "statement_data df = statement_data df'"
    by (simp add: statement_data_eq t)
  have 2: "income_statement_generator df out = income_statement_generator df' out"
    by (simp add: income_statement_generator_def 1)
  have 3: "get_total (row\<lparr>Account := account, Period := period\<rparr> # df) sub_accounts
        = (if Sub_Account row \<in> set sub_accounts then Amount row + get_total df' sub_accounts
           else get_total df' sub_accounts)"
    by (simp add: get_total_Cons t)
  show ?thesis
    by (intro conjI t 1 2 3)
qed

theorem statement_ignores_account_and_period_witness:
  "map Sub_Account sample_data
     = map Sub_Account (map (\<lambda>row. row\<lparr>Account := ''Other'', Period := ''2024-Q4''\<rparr>) sample_data)
   \<and> map Amount sample_data
     = map Amount (map (\<lambda>row. row\<lparr>Account := ''Other'', Period := ''2024-Q4''\<rparr>) sample_data)
   \<and> sample_data \<noteq> map (\<lambda>row. row\<lparr>Account := ''Other'', Period := ''2024-Q4''\<rparr>) sample_data
   \<and> statement_data sample_data
     = statement_data (map (\<lambda>row. row\<lparr>Account := ''Other'', Period := ''2024-Q4''\<rparr>) sample_data)
   \<and> get_total (map (\<lambda>row. row\<lparr>Account := ''Other'', Period := ''2024-Q4''\<rparr>) sample_data)
        [''Income Tax''] = - 40000"
proof -
  let ?df' = "map (\<lambda>row. row\<lparr>Account := ''Other'', Period := ''2024-Q4''\<rparr>) sample_data"
  have a: "map Sub_Account sample_data = map Sub_Account ?df'"
    and b: "map Amount sample_data = map Amount ?df'"
    by (simp_all add: o_def)
  have c: "sample_data \<noteq> ?df'"
    by (simp add: sample_data_def)
  note t = statement_ignores_account_and_period [OF a b, of "[''Income Tax'']"]
  have "get_total ?df' [''Income Tax''] = - 40000"
    using t sample_totals(4) by simp
  then show ?thesis
    using a b c t by blast
qed

subsection \<open>C10: the variance table keeps the input columns\<close>

text \<open>
  C10. The variance table has one row for each input row, in the same order, and each row
  has the department, actual and budget of its input row: cutting the three added columns
  off gives the input table back. The report prints one line for each of these rows, in
  this order, after its four heading lines.
\<close>

theorem variance_table_frame:
  "map budget_row.truncate (variance_table df) = df
   \<and> length (variance_table df) = length df
   \<and> map Department (variance_table df) = map Department df
   \<and> map Actual (variance_table df) = map Actual df
   \<and> map Budget (variance_table df) = map Budget df
   \<and> variance_analysis_template df out
       = out @ [''Variance Analysis Report'', replicate 60 CHR ''='', report_header,
                replicate 60 CHR ''-''] @ map report_row (variance_table df)"
proof -
  have 1: "length (variance_table df) = length df"
    by (simp add: variance_table_def assign_status_def assign_variance_pct_def
        assign_variance_abs_def)
  have 2: "map Department (variance_table df) = map Department df"
    "map Actual (variance_table df) = map Actual df"
    "map Budget (variance_table df) = map Budget df"
    by (simp_all add: variance_table_def assign_status_def assign_variance_pct_def
        assign_variance_abs_def o_def)
  have 3: "variance_analysis_template df out
       = out @ [''Variance Analysis Report'', replicate 60 CHR ''='', report_header,
                replicate 60 CHR ''-''] @ map report_row (variance_table df)"
    using report_loop_append [of "variance_table df" "print (replicate 60 CHR ''-'')
          (print report_header
             (print (replicate 60 CHR ''='')
                (print ''Variance Analysis Report'' out)))"]
    by (simp add: variance_analysis_template_def report_loop_map print_def)
  show ?thesis
    by (intro conjI truncate_variance_table 1 2 3)
qed

end
